theory Spec2Isabelle
  imports Main
begin

section \<open>The OAuth broker of \<^verbatim>\<open>src/src/auth.ts\<close>\<close>

text \<open>
  The four entry points of \<^verbatim>\<open>auth.ts\<close> (\<^verbatim>\<open>authorize\<close>, \<^verbatim>\<open>confirmConsent\<close>,
  \<^verbatim>\<open>callback\<close>, \<^verbatim>\<open>tokenExchangeCallback\<close>) are request handlers without any state of
  their own: what they know about a transaction is what the request's cookie
  \<^verbatim>\<open>auth0_req_<transactionState>\<close> carries. Each handler is a function from the request
  (and the collaborators it calls) to the list of effects it performs, in order, and
  either the response it returns or the exception it throws. A cookie set by a handler
  is an effect on the Hono context \<open>c\<close>; whether it leaves with the response depends on
  how the response is made.
\<close>

subsection \<open>Strings and truthiness\<close>

text \<open>
  A value of type \<^verbatim>\<open>string | null | undefined\<close> is a \<^typ>\<open>string option\<close>. JavaScript's
  \<^verbatim>\<open>!v\<close> holds for a missing value and for the empty string; \<open>truthy\<close> keeps a value
  exactly when \<^verbatim>\<open>!v\<close> is false. \<open>js_or\<close> is \<^verbatim>\<open>a || b\<close>.
\<close>

definition truthy :: "string option \<Rightarrow> string option" where
  "truthy v = (case v of None \<Rightarrow> None | Some s \<Rightarrow> if s = [] then None else Some s)"

definition js_or :: "string option \<Rightarrow> string option \<Rightarrow> string option" where
  "js_or a b = (case truthy a of Some s \<Rightarrow> Some s | None \<Rightarrow> b)"

text \<open>\<^verbatim>\<open>s.split(" ")\<close>: the pieces between every occurrence of the separator.\<close>

fun split_on :: "char \<Rightarrow> string \<Rightarrow> string list" where
  "split_on c [] = [[]]"
| "split_on c (x # xs) =
     (if x = c then [] # split_on c xs
      else (case split_on c xs of [] \<Rightarrow> [[x]] | y # ys \<Rightarrow> (x # y) # ys))"

subsection \<open>URLs and their query parameters\<close>

text \<open>
  A \<^verbatim>\<open>URL\<close> object: what precedes the query, and the decoded name/value pairs of
  \<^verbatim>\<open>searchParams\<close> in order. \<^verbatim>\<open>searchParams.set(k, v)\<close> overwrites the first pair named
  \<open>k\<close> and removes the others, or appends a new pair; \<^verbatim>\<open>searchParams.get(k)\<close> is the first
  value named \<open>k\<close>.
\<close>

record url =
  origin :: string
  pathname :: string
  searchParams :: "(string \<times> string) list"

fun sp_set :: "string \<Rightarrow> string \<Rightarrow> (string \<times> string) list \<Rightarrow> (string \<times> string) list" where
  "sp_set k v [] = [(k, v)]"
| "sp_set k v (p # ps) =
     (if fst p = k then (k, v) # filter (\<lambda>q. fst q \<noteq> k) ps else p # sp_set k v ps)"

definition sp_get :: "(string \<times> string) list \<Rightarrow> string \<Rightarrow> string option" where
  "sp_get ps k = map_of ps k"

definition url_set :: "string \<Rightarrow> string \<Rightarrow> url \<Rightarrow> url" where
  "url_set k v u = u\<lparr>searchParams := sp_set k v (searchParams u)\<rparr>"

definition url_get :: "url \<Rightarrow> string \<Rightarrow> string option" where
  "url_get u k = sp_get (searchParams u) k"

subsection \<open>Data model\<close>

text \<open>
  \<^verbatim>\<open>AuthRequest\<close> and \<^verbatim>\<open>ClientInfo\<close> are the downstream authorization layer's types
  (the fields \<^verbatim>\<open>auth.ts\<close> reads; the rest is the record's extension). The layer gives
  the empty string for a parameter the request did not carry.
\<close>

record AuthRequest =
  clientId :: string
  redirectUri :: string
  scope :: "string list"
  state :: string

record ClientInfo =
  client_clientId :: string
  clientName :: "string option"
  logoUri :: "string option"
  clientUri :: "string option"

text \<open>\<^verbatim>\<open>type Auth0AuthRequest\<close>, the bundle kept in the transaction cookie.\<close>

record Auth0AuthRequest =
  mcpAuthRequest :: AuthRequest
  codeVerifier :: string
  codeChallenge :: string
  nonce :: string
  transactionState :: string
  consentToken :: string

text \<open>The ID token's claim set (\<^verbatim>\<open>JWTPayload\<close>).\<close>

record JWTPayload =
  sub :: "string option"
  name :: "string option"
  email :: "string option"
  nonce_claim :: "string option"

text \<open>
  \<^verbatim>\<open>UserProps\<close> of \<^verbatim>\<open>types.ts\<close>, with the \<^verbatim>\<open>accessTokenTTL\<close> that \<^verbatim>\<open>callback\<close> stores in
  the token set. The property bag is open: whatever else it holds is the extension of
  the record, which the spread \<^verbatim>\<open>...options.props\<close> carries along.
\<close>

record TokenSet =
  accessToken :: string
  accessTokenTTL :: "nat option"
  idToken :: "string option"
  refreshToken :: "string option"

record UserProps =
  claims :: JWTPayload
  tokenSet :: TokenSet

record 'a TokenExchangeCallbackOptions =
  grantType :: string
  props :: "'a UserProps_scheme"

record 'a TokenExchangeCallbackResult =
  result_accessTokenTTL :: "nat option"
  newProps :: "'a UserProps_scheme"

text \<open>The worker's environment bindings (\<^verbatim>\<open>Env\<close>).\<close>

record Env =
  AUTH0_DOMAIN :: string
  AUTH0_CLIENT_ID :: string
  AUTH0_CLIENT_SECRET :: string
  AUTH0_AUDIENCE :: string
  AUTH0_SCOPE :: string
  NODE_ENV :: string

text \<open>
  What a handler reads of the request: its URL (\<^verbatim>\<open>c.req.url\<close>, whose query is
  \<^verbatim>\<open>c.req.query\<close>), the cookies of its Cookie header by name (\<^verbatim>\<open>getCookie\<close>) and the
  fields of its form body (\<^verbatim>\<open>formData.get\<close>).
\<close>

record request =
  req_url :: url
  cookies :: "string \<Rightarrow> string option"
  formData :: "string \<Rightarrow> string option"

definition query :: "request \<Rightarrow> string \<Rightarrow> string option" where
  "query req k = url_get (req_url req) k"

definition getCookie :: "request \<Rightarrow> string \<Rightarrow> string option" where
  "getCookie req cookieName = cookies req cookieName"

text \<open>\<^verbatim>\<open>new URL("/callback", c.req.url).href\<close>: the broker's own callback address.\<close>

definition callback_href :: "request \<Rightarrow> string" where
  "callback_href req = origin (req_url req) @ ''/callback''"

subsection \<open>The identity provider's answers\<close>

text \<open>
  The provider's metadata (\<^verbatim>\<open>as\<close>), the token endpoint's HTTP answer, and
  \<^verbatim>\<open>oauth.TokenEndpointResponse\<close>, the processed answer, together with the claims that
  \<^verbatim>\<open>oauth.getValidatedIdTokenClaims\<close> gives for it. An ID token as received is its compact
  form, its payload, and the outcome of the signature, issuer and audience checks on it.
\<close>

record AuthorizationServer =
  issuer :: string
  authorization_endpoint :: "string option"

record IdToken =
  jwt :: string
  payload :: JWTPayload
  signature_ok :: bool
  issuer_ok :: bool
  audience_ok :: bool

record TokenBody =
  body_access_token :: string
  body_expires_in :: "nat option"
  body_id_token :: "IdToken option"
  body_refresh_token :: "string option"

datatype http_response = ErrorResponse string | TokenResponse TokenBody

record TokenEndpointResponse =
  access_token :: string
  expires_in :: "nat option"
  id_token :: "string option"
  refresh_token :: "string option"
  validated_claims :: "JWTPayload option"

definition getValidatedIdTokenClaims :: "TokenEndpointResponse \<Rightarrow> JWTPayload option" where
  "getValidatedIdTokenClaims result = validated_claims result"

subsection \<open>Effects, errors and responses\<close>

record CookieOptions =
  httpOnly :: bool
  maxAge :: nat
  path :: string
  sameSite :: "string option"
  secure :: bool

record CompleteAuthorizationOptions =
  metadata_label :: "string option"
  ca_props :: UserProps
  ca_request :: AuthRequest
  ca_scope :: "string list"
  userId :: "string option"

text \<open>
  The effects of a handler: \<^verbatim>\<open>setCookie(c, name, value, options)\<close>, which writes a
  \<^verbatim>\<open>Set-Cookie\<close> header on the context \<open>c\<close>; the three network calls to the identity
  provider (discovery of the issuer; the authorization-code grant with its code
  parameters, redirect URI and verifier; the refresh grant with its refresh token); and
  the completion of the downstream grant.
\<close>

datatype effect =
    SetCookie string string CookieOptions
  | DiscoveryRequest string
  | AuthorizationCodeGrantRequest "(string \<times> string) list" string string
  | RefreshTokenGrantRequest string
  | CompleteAuthorization CompleteAuthorizationOptions

text \<open>
  What a handler can throw: the rejections of its collaborators, and the two
  \<^verbatim>\<open>new Error(message)\<close> of \<^verbatim>\<open>tokenExchangeCallback\<close>.
\<close>

datatype error =
    ProviderError
  | InvalidURL
  | CookieCodecError
  | DiscoveryError
  | AuthResponseError
  | TokenExchangeError
  | InvalidIdToken
  | RefreshError
  | Error string

text \<open>The arguments of \<^verbatim>\<open>renderConsentScreen\<close>; the page is the HTML template filled with them.\<close>

record ConsentScreen =
  cs_clientLogo :: string
  cs_clientName :: string
  cs_clientUri :: string
  cs_consentToken :: string
  cs_redirectUri :: string
  requestedScopes :: "string list"
  cs_transactionState :: string

text \<open>
  \<^verbatim>\<open>c.text(body, status)\<close>, \<^verbatim>\<open>c.html(renderConsentScreen(...))\<close> and
  \<^verbatim>\<open>c.redirect(url)\<close> are responses built from the context \<open>c\<close>: they carry the headers
  written on it. \<^verbatim>\<open>Response.redirect(url)\<close>, which \<^verbatim>\<open>callback\<close> returns, is a response of
  its own and carries none of them. A redirect holds the URL whose serialization is its
  \<^verbatim>\<open>Location\<close> header.
\<close>

datatype response =
    Text string nat
  | Html ConsentScreen
  | Redirect url
  | ResponseRedirect url

fun built_from_context :: "response \<Rightarrow> bool" where
  "built_from_context (Text body status) = True"
| "built_from_context (Html page) = True"
| "built_from_context (Redirect u) = True"
| "built_from_context (ResponseRedirect u) = False"

fun is_set_cookie :: "effect \<Rightarrow> bool" where
  "is_set_cookie (SetCookie cookieName v opts) = True"
| "is_set_cookie (DiscoveryRequest i) = False"
| "is_set_cookie (AuthorizationCodeGrantRequest ps r v) = False"
| "is_set_cookie (RefreshTokenGrantRequest rt) = False"
| "is_set_cookie (CompleteAuthorization opts) = False"

type_synonym 'a io = "effect list \<times> (error + 'a)"

definition ret :: "'a \<Rightarrow> 'a io" where
  "ret x = ([], Inr x)"

definition throw :: "error \<Rightarrow> 'a io" where
  "throw e = ([], Inl e)"

definition emit :: "effect \<Rightarrow> unit io" where
  "emit ef = ([ef], Inr ())"

definition and_then :: "'a io \<Rightarrow> ('a \<Rightarrow> 'b io) \<Rightarrow> 'b io" where
  "and_then m f =
     (case m of
        (es, Inl e) \<Rightarrow> (es, Inl e)
      | (es, Inr x) \<Rightarrow> (case f x of (es', r) \<Rightarrow> (es @ es', r)))"

definition orThrow :: "error \<Rightarrow> 'a option \<Rightarrow> 'a io" where
  "orThrow e v = (case v of None \<Rightarrow> throw e | Some x \<Rightarrow> ret x)"

definition effects :: "'a io \<Rightarrow> effect list" where
  "effects m = fst m"

definition outcome :: "'a io \<Rightarrow> error + 'a" where
  "outcome m = snd m"

text \<open>
  The \<^verbatim>\<open>Set-Cookie\<close> headers of the response a handler returns: those written on the
  context when the response is built from it, none otherwise; \<open>None\<close> when the handler
  throws and returns no response.
\<close>

definition response_set_cookies :: "response io \<Rightarrow> effect list option" where
  "response_set_cookies m =
     (case outcome m of
        Inl e \<Rightarrow> None
      | Inr r \<Rightarrow> Some (if built_from_context r then filter is_set_cookie (effects m) else []))"

subsection \<open>Collaborators\<close>

text \<open>
  What \<^verbatim>\<open>auth.ts\<close> calls and does not define, as parameters; \<open>None\<close> is the call
  throwing (for \<open>lookupClient\<close>: returning \<^verbatim>\<open>null\<close>).
  \<^item> \<open>parseAuthRequest\<close>, \<open>lookupClient\<close>, \<open>completeAuthorization\<close>: \<^verbatim>\<open>c.env.OAUTH_PROVIDER\<close>;
  \<^item> \<open>new_URL\<close>: the \<^verbatim>\<open>URL\<close> constructor on a string;
  \<^item> \<open>encode_cookie\<close>: \<^verbatim>\<open>btoa(JSON.stringify(x))\<close>; \<open>decode_cookie\<close>:
    \<^verbatim>\<open>JSON.parse(atob(v)) as Auth0AuthRequest\<close>;
  \<^item> \<open>calculatePKCECodeChallenge\<close>: the S256 challenge of a verifier;
  \<^item> \<open>discovery\<close>: \<^verbatim>\<open>oauth.discoveryRequest\<close> and \<^verbatim>\<open>oauth.processDiscoveryResponse\<close>
    for an issuer;
  \<^item> \<open>validateAuthResponse\<close>: on the metadata, the client id, the callback URL and the
    expected state, the code parameters;
  \<^item> \<open>authorizationCodeGrantRequest\<close>: on the metadata, the client id, the client secret,
    the code parameters, the redirect URI and the code verifier, the token endpoint's
    answer;
  \<^item> \<open>refreshTokenGrantRequest\<close>: on the metadata, the client id, the client secret and the
    refresh token, the token endpoint's answer;
  \<^item> \<open>processRefreshTokenResponse\<close>: on the metadata, the client id and that answer.
\<close>

record platform =
  parseAuthRequest :: "request \<Rightarrow> AuthRequest option"
  lookupClient :: "string \<Rightarrow> ClientInfo option"
  completeAuthorization :: "CompleteAuthorizationOptions \<Rightarrow> string option"
  new_URL :: "string \<Rightarrow> url option"
  encode_cookie :: "Auth0AuthRequest \<Rightarrow> string option"
  decode_cookie :: "string \<Rightarrow> Auth0AuthRequest option"
  calculatePKCECodeChallenge :: "string \<Rightarrow> string"
  discovery :: "string \<Rightarrow> AuthorizationServer option"
  validateAuthResponse ::
    "AuthorizationServer \<Rightarrow> string \<Rightarrow> url \<Rightarrow> string \<Rightarrow> (string \<times> string) list option"
  authorizationCodeGrantRequest ::
    "AuthorizationServer \<Rightarrow> string \<Rightarrow> string \<Rightarrow> (string \<times> string) list \<Rightarrow> string \<Rightarrow> string
      \<Rightarrow> http_response option"
  refreshTokenGrantRequest ::
    "AuthorizationServer \<Rightarrow> string \<Rightarrow> string \<Rightarrow> string \<Rightarrow> http_response option"
  processRefreshTokenResponse ::
    "AuthorizationServer \<Rightarrow> string \<Rightarrow> http_response \<Rightarrow> TokenEndpointResponse option"

text \<open>
  The values \<^verbatim>\<open>authorize\<close> draws: \<^verbatim>\<open>oauth.generateRandomCodeVerifier()\<close>, the two
  \<^verbatim>\<open>oauth.generateRandomState()\<close> (transaction state, consent token) and
  \<^verbatim>\<open>oauth.generateRandomNonce()\<close>.
\<close>

record random_draws =
  draw_codeVerifier :: string
  draw_transactionState :: string
  draw_consentToken :: string
  draw_nonce :: string

subsection \<open>Discovery\<close>

text \<open>
  \<^verbatim>\<open>getOidcConfig\<close>: \<^verbatim>\<open>new URL(issuer)\<close>, then the discovery request; it returns the
  metadata, the client (its id) and the client authentication (its secret).
\<close>

definition getOidcConfig ::
  "platform \<Rightarrow> string \<Rightarrow> string \<Rightarrow> string \<Rightarrow> (AuthorizationServer \<times> string \<times> string) io" where
  "getOidcConfig p iss client_id client_secret =
     and_then (orThrow InvalidURL (new_URL p iss)) (\<lambda>_.
     and_then (emit (DiscoveryRequest iss)) (\<lambda>_.
     and_then (orThrow DiscoveryError (discovery p iss)) (\<lambda>as.
     ret (as, client_id, client_secret))))"

definition issuer_of :: "Env \<Rightarrow> string" where
  "issuer_of env = ''https://'' @ AUTH0_DOMAIN env @ ''/''"

subsection \<open>\<^verbatim>\<open>authorize\<close>\<close>

definition transaction_cookie :: "string \<Rightarrow> string" where
  "transaction_cookie transactionState0 = ''auth0_req_'' @ transactionState0"

definition new_cookie_options :: "Env \<Rightarrow> CookieOptions" where
  "new_cookie_options env =
     \<lparr>httpOnly = True, maxAge = 60 * 60 * 1, path = ''/'',
      sameSite = Some (if NODE_ENV env \<noteq> ''development'' then ''none'' else ''lax''),
      secure = (NODE_ENV env \<noteq> ''development'')\<rparr>"

text \<open>The options \<^verbatim>\<open>{ maxAge: 0, path: "/" }\<close> of the cookie's removal.\<close>

definition clear_cookie_options :: CookieOptions where
  "clear_cookie_options =
     \<lparr>httpOnly = False, maxAge = 0, path = ''/'', sameSite = None, secure = False\<rparr>"

text \<open>The bundle \<^verbatim>\<open>authorize\<close> builds from the parsed request and its random draws.\<close>

definition new_auth0AuthRequest ::
  "platform \<Rightarrow> random_draws \<Rightarrow> AuthRequest \<Rightarrow> Auth0AuthRequest" where
  "new_auth0AuthRequest p rnd mcpClientAuthRequest =
     \<lparr>mcpAuthRequest = mcpClientAuthRequest,
      codeVerifier = draw_codeVerifier rnd,
      codeChallenge = calculatePKCECodeChallenge p (draw_codeVerifier rnd),
      nonce = draw_nonce rnd,
      transactionState = draw_transactionState rnd,
      consentToken = draw_consentToken rnd\<rparr>"

definition authorize :: "platform \<Rightarrow> Env \<Rightarrow> random_draws \<Rightarrow> request \<Rightarrow> response io" where
  "authorize p env rnd req =
     and_then (orThrow ProviderError (parseAuthRequest p req)) (\<lambda>mcpClientAuthRequest.
     if clientId mcpClientAuthRequest = [] then ret (Text ''Invalid request'' 400)
     else
       (case lookupClient p (clientId mcpClientAuthRequest) of
          None \<Rightarrow> ret (Text ''Invalid client'' 400)
        | Some client \<Rightarrow>
            (let auth0AuthRequest = new_auth0AuthRequest p rnd mcpClientAuthRequest;
                 cookieName = transaction_cookie (draw_transactionState rnd)
             in
             and_then (orThrow CookieCodecError (encode_cookie p auth0AuthRequest)) (\<lambda>v.
             and_then (emit (SetCookie cookieName v (new_cookie_options env))) (\<lambda>_.
             ret (Html
               \<lparr>cs_clientLogo = (case js_or (logoUri client) (Some []) of
                                   Some s \<Rightarrow> s | None \<Rightarrow> []),
                cs_clientName = (case js_or (clientName client) (Some (client_clientId client)) of
                                   Some s \<Rightarrow> s | None \<Rightarrow> []),
                cs_clientUri = (case js_or (clientUri client) (Some ''#'') of
                                  Some s \<Rightarrow> s | None \<Rightarrow> []),
                cs_consentToken = draw_consentToken rnd,
                cs_redirectUri = redirectUri mcpClientAuthRequest,
                requestedScopes = split_on CHR '' '' (AUTH0_SCOPE env),
                cs_transactionState = draw_transactionState rnd\<rparr>))))))"

subsection \<open>\<^verbatim>\<open>confirmConsent\<close>\<close>

text \<open>The denial branch: the redirect back to the downstream client.\<close>

definition denial_redirect :: "AuthRequest \<Rightarrow> url \<Rightarrow> url" where
  "denial_redirect mcp redirectUri0 =
     (let u1 = url_set ''error'' ''access_denied'' redirectUri0;
          u2 = url_set ''error_description'' ''User denied the request'' u1
      in if state mcp \<noteq> [] then url_set ''state'' (state mcp) u2 else u2)"

text \<open>The approval branch: the parameters set on the provider's authorization endpoint.\<close>

definition authorization_redirect ::
  "Env \<Rightarrow> request \<Rightarrow> Auth0AuthRequest \<Rightarrow> string \<Rightarrow> url \<Rightarrow> url" where
  "authorization_redirect env req auth0AuthRequest transactionState0 authorizationUrl =
     url_set ''state'' transactionState0
    (url_set ''nonce'' (nonce auth0AuthRequest)
    (url_set ''code_challenge_method'' ''S256''
    (url_set ''code_challenge'' (codeChallenge auth0AuthRequest)
    (url_set ''scope'' (AUTH0_SCOPE env)
    (url_set ''audience'' (AUTH0_AUDIENCE env)
    (url_set ''response_type'' ''code''
    (url_set ''redirect_uri'' (callback_href req)
    (url_set ''client_id'' (AUTH0_CLIENT_ID env) authorizationUrl))))))))"

definition confirmConsent :: "platform \<Rightarrow> Env \<Rightarrow> request \<Rightarrow> response io" where
  "confirmConsent p env req =
     (let consentToken0 = formData req ''consent_token'';
          consentAction = formData req ''consent_action''
      in
      case truthy (formData req ''transaction_state'') of
        None \<Rightarrow> ret (Text ''Invalid transaction state'' 400)
      | Some transactionState0 \<Rightarrow>
          (let cookieName = transaction_cookie transactionState0 in
           case truthy (getCookie req cookieName) of
             None \<Rightarrow> ret (Text ''Invalid or expired transaction'' 400)
           | Some auth0AuthRequestCookie \<Rightarrow>
               and_then (orThrow CookieCodecError (decode_cookie p auth0AuthRequestCookie))
                 (\<lambda>auth0AuthRequest.
               if Some (consentToken auth0AuthRequest) \<noteq> consentToken0
               then ret (Text ''Invalid consent token'' 403)
               else if consentAction \<noteq> Some ''approve'' then
                 and_then (orThrow InvalidURL
                   (new_URL p (redirectUri (mcpAuthRequest auth0AuthRequest)))) (\<lambda>redirectUri0.
                 and_then (emit (SetCookie cookieName [] clear_cookie_options)) (\<lambda>_.
                 ret (Redirect (denial_redirect (mcpAuthRequest auth0AuthRequest) redirectUri0))))
               else
                 and_then (getOidcConfig p (issuer_of env) (AUTH0_CLIENT_ID env)
                   (AUTH0_CLIENT_SECRET env)) (\<lambda>(as, client, clientAuth).
                 and_then (orThrow InvalidURL
                   (case authorization_endpoint as of None \<Rightarrow> None | Some ep \<Rightarrow> new_URL p ep))
                   (\<lambda>authorizationUrl.
                 ret (Redirect (authorization_redirect env req auth0AuthRequest
                   transactionState0 authorizationUrl)))))))"

subsection \<open>ID-token validation\<close>

text \<open>
  Modelled from the spec: \<^verbatim>\<open>validateIdToken(response, expectedNonce)\<close> of section 4.4,
  which is what \<^verbatim>\<open>oauth.processAuthorizationCodeResponse\<close> does with the option
  \<^verbatim>\<open>expectedNonce\<close>; that function belongs to the \<^verbatim>\<open>oauth4webapi\<close> package and is
  not among the sources. In the spec's words it "fails with InvalidIdToken if claims are
  absent, signature/issuer/audience checks fail, or the nonce does not match the one
  persisted for this transaction".
\<close>

definition validateIdToken :: "TokenBody \<Rightarrow> string \<Rightarrow> error + JWTPayload" where
  "validateIdToken response expectedNonce =
     (case body_id_token response of
        None \<Rightarrow> Inl InvalidIdToken
      | Some t \<Rightarrow>
          if \<not> signature_ok t \<or> \<not> issuer_ok t \<or> \<not> audience_ok t then Inl InvalidIdToken
          else if nonce_claim (payload t) \<noteq> Some expectedNonce then Inl InvalidIdToken
          else Inr (payload t))"

text \<open>
  Modelled from the spec: \<^verbatim>\<open>oauth.processAuthorizationCodeResponse(as, client, response,
  { expectedNonce, requireIdToken: true })\<close>, missing from the sources like
  \<open>validateIdToken\<close>: an error answer of the token endpoint is the spec's
  \<^verbatim>\<open>TokenExchangeError\<close>, and the token set is returned once the ID token is validated.
\<close>

definition processAuthorizationCodeResponse ::
  "AuthorizationServer \<Rightarrow> string \<Rightarrow> http_response \<Rightarrow> string \<Rightarrow> TokenEndpointResponse io" where
  "processAuthorizationCodeResponse as client response expectedNonce =
     (case response of
        ErrorResponse e \<Rightarrow> throw TokenExchangeError
      | TokenResponse body \<Rightarrow>
          (case validateIdToken body expectedNonce of
             Inl e \<Rightarrow> throw e
           | Inr c \<Rightarrow>
               ret \<lparr>access_token = body_access_token body,
                    expires_in = body_expires_in body,
                    id_token = map_option jwt (body_id_token body),
                    refresh_token = body_refresh_token body,
                    validated_claims = Some c\<rparr>))"

subsection \<open>\<^verbatim>\<open>callback\<close>\<close>

definition completion_options ::
  "Auth0AuthRequest \<Rightarrow> TokenEndpointResponse \<Rightarrow> JWTPayload \<Rightarrow> CompleteAuthorizationOptions" where
  "completion_options auth0AuthRequest result claims0 =
     \<lparr>metadata_label = js_or (js_or (name claims0) (email claims0)) (sub claims0),
      ca_props =
        \<lparr>claims = claims0,
         tokenSet =
           \<lparr>accessToken = access_token result,
            accessTokenTTL = expires_in result,
            idToken = id_token result,
            refreshToken = refresh_token result\<rparr>\<rparr>,
      ca_request = mcpAuthRequest auth0AuthRequest,
      ca_scope = scope (mcpAuthRequest auth0AuthRequest),
      userId = sub claims0\<rparr>"

definition callback :: "platform \<Rightarrow> Env \<Rightarrow> request \<Rightarrow> response io" where
  "callback p env req =
     (case truthy (query req ''state'') of
        None \<Rightarrow> ret (Text ''Invalid state parameter'' 400)
      | Some stateParam \<Rightarrow>
          (let cookieName = transaction_cookie stateParam in
           case truthy (getCookie req cookieName) of
             None \<Rightarrow> ret (Text ''Invalid transaction state or session expired'' 400)
           | Some auth0AuthRequestCookie \<Rightarrow>
               and_then (orThrow CookieCodecError (decode_cookie p auth0AuthRequestCookie))
                 (\<lambda>auth0AuthRequest.
               and_then (emit (SetCookie cookieName [] clear_cookie_options)) (\<lambda>_.
               and_then (getOidcConfig p (issuer_of env) (AUTH0_CLIENT_ID env)
                 (AUTH0_CLIENT_SECRET env)) (\<lambda>(as, client, clientAuth).
               and_then (orThrow AuthResponseError
                 (validateAuthResponse p as client (req_url req)
                   (transactionState auth0AuthRequest))) (\<lambda>params.
               and_then (emit (AuthorizationCodeGrantRequest params (callback_href req)
                 (codeVerifier auth0AuthRequest))) (\<lambda>_.
               and_then (orThrow TokenExchangeError
                 (authorizationCodeGrantRequest p as client clientAuth params (callback_href req)
                   (codeVerifier auth0AuthRequest))) (\<lambda>response.
               and_then (processAuthorizationCodeResponse as client response
                 (nonce auth0AuthRequest)) (\<lambda>result.
               case getValidatedIdTokenClaims result of
                 None \<Rightarrow> ret (Text ''Received invalid id_token from Auth0'' 400)
               | Some claims0 \<Rightarrow>
                   (let opts = completion_options auth0AuthRequest result claims0 in
                    and_then (emit (CompleteAuthorization opts)) (\<lambda>_.
                    and_then (orThrow ProviderError (completeAuthorization p opts)) (\<lambda>redirectTo.
                    and_then (orThrow InvalidURL (new_URL p redirectTo)) (\<lambda>u.
                    ret (ResponseRedirect u))))))))))))))"

subsection \<open>\<^verbatim>\<open>tokenExchangeCallback\<close>\<close>

text \<open>The result is \<open>None\<close> where the function returns nothing (another grant type).\<close>

definition tokenExchangeCallback ::
  "platform \<Rightarrow> Env \<Rightarrow> 'a TokenExchangeCallbackOptions
    \<Rightarrow> 'a TokenExchangeCallbackResult option io" where
  "tokenExchangeCallback p env options =
     (if grantType options = ''authorization_code'' then
        ret (Some \<lparr>result_accessTokenTTL = accessTokenTTL (tokenSet (props options)),
                   newProps = props options\<rparr>)
      else if grantType options = ''refresh_token'' then
        (case truthy (refreshToken (tokenSet (props options))) of
           None \<Rightarrow> throw (Error ''No Auth0 refresh token found'')
         | Some auth0RefreshToken \<Rightarrow>
             and_then (getOidcConfig p (issuer_of env) (AUTH0_CLIENT_ID env)
               (AUTH0_CLIENT_SECRET env)) (\<lambda>(as, client, clientAuth).
             and_then (emit (RefreshTokenGrantRequest auth0RefreshToken)) (\<lambda>_.
             and_then (orThrow RefreshError
               (refreshTokenGrantRequest p as client clientAuth auth0RefreshToken)) (\<lambda>response.
             and_then (orThrow RefreshError
               (processRefreshTokenResponse p as client response)) (\<lambda>refreshTokenResponse.
             case getValidatedIdTokenClaims refreshTokenResponse of
               None \<Rightarrow> throw (Error ''Received invalid id_token from Auth0'')
             | Some claims0 \<Rightarrow>
                 ret (Some
                   \<lparr>result_accessTokenTTL = expires_in refreshTokenResponse,
                    newProps = (props options)
                      \<lparr>claims := claims0,
                       tokenSet :=
                         \<lparr>accessToken = access_token refreshTokenResponse,
                          accessTokenTTL = expires_in refreshTokenResponse,
                          idToken = id_token refreshTokenResponse,
                          refreshToken =
                            js_or (refresh_token refreshTokenResponse)
                              (Some auth0RefreshToken)\<rparr>\<rparr>\<rparr>))))))
      else ret None)"

subsection \<open>A sample transaction\<close>

text \<open>
  A downstream client \<open>c1\<close> with redirect target \<^verbatim>\<open>https://client.example/cb\<close>, the
  provider \<^verbatim>\<open>idp.example\<close>, the draws \<open>V\<close>, \<open>T\<close>, \<open>K\<close>, \<open>N\<close>; the cookie codec maps the
  bundle of this transaction to \<open>B\<close> and back. The sample platform is given the answer
  of the provider's token endpoint.
\<close>

definition ex_env :: Env where
  "ex_env =
     \<lparr>AUTH0_DOMAIN = ''idp.example'', AUTH0_CLIENT_ID = ''broker'',
      AUTH0_CLIENT_SECRET = ''s3'', AUTH0_AUDIENCE = ''urn:todos'',
      AUTH0_SCOPE = ''openid profile'', NODE_ENV = ''production''\<rparr>"

definition ex_mcp :: AuthRequest where
  "ex_mcp =
     \<lparr>clientId = ''c1'', redirectUri = ''https://client.example/cb'',
      scope = [''openid'', ''profile''], state = ''xyz''\<rparr>"

definition ex_client :: ClientInfo where
  "ex_client =
     \<lparr>client_clientId = ''c1'', clientName = Some ''Client One'', logoUri = None,
      clientUri = None\<rparr>"

definition ex_rnd :: random_draws where
  "ex_rnd =
     \<lparr>draw_codeVerifier = ''V'', draw_transactionState = ''T'', draw_consentToken = ''K'',
      draw_nonce = ''N''\<rparr>"

definition ex_bundle :: Auth0AuthRequest where
  "ex_bundle =
     \<lparr>mcpAuthRequest = ex_mcp, codeVerifier = ''V'', codeChallenge = ''S256:V'',
      nonce = ''N'', transactionState = ''T'', consentToken = ''K''\<rparr>"

definition ex_client_url :: url where
  "ex_client_url =
     \<lparr>origin = ''https://client.example'', pathname = ''/cb'', searchParams = []\<rparr>"

definition ex_issuer_url :: url where
  "ex_issuer_url = \<lparr>origin = ''https://idp.example'', pathname = ''/'', searchParams = []\<rparr>"

definition ex_authorize_url :: url where
  "ex_authorize_url =
     \<lparr>origin = ''https://idp.example'', pathname = ''/authorize'', searchParams = []\<rparr>"

definition ex_new_URL :: "string \<Rightarrow> url option" where
  "ex_new_URL s =
     (if s = ''https://client.example/cb'' then Some ex_client_url
      else if s = ''https://client.example/cb?code=D''
        then Some (ex_client_url\<lparr>searchParams := [(''code'', ''D'')]\<rparr>)
      else if s = ''https://idp.example/'' then Some ex_issuer_url
      else if s = ''https://idp.example/authorize'' then Some ex_authorize_url
      else None)"

definition ex_as :: AuthorizationServer where
  "ex_as =
     \<lparr>issuer = ''https://idp.example/'',
      authorization_endpoint = Some ''https://idp.example/authorize''\<rparr>"

definition ex_claims :: JWTPayload where
  "ex_claims =
     \<lparr>sub = Some ''user1'', name = Some ''Ada'', email = None, nonce_claim = Some ''N''\<rparr>"

text \<open>An ID token that passes the signature, issuer and audience checks, with a given nonce.\<close>

definition ex_id_token :: "string option \<Rightarrow> IdToken" where
  "ex_id_token n =
     \<lparr>jwt = ''J'', payload = ex_claims\<lparr>nonce_claim := n\<rparr>, signature_ok = True,
      issuer_ok = True, audience_ok = True\<rparr>"

definition ex_token_body :: "string option \<Rightarrow> TokenBody" where
  "ex_token_body n =
     \<lparr>body_access_token = ''AT'', body_expires_in = Some 3600,
      body_id_token = Some (ex_id_token n), body_refresh_token = Some ''RT''\<rparr>"

text \<open>A refresh answer in which the provider issues no new refresh token.\<close>

definition ex_refreshed :: TokenEndpointResponse where
  "ex_refreshed =
     \<lparr>access_token = ''AT2'', expires_in = Some 7200, id_token = Some ''J2'',
      refresh_token = None, validated_claims = Some (ex_claims\<lparr>nonce_claim := None\<rparr>)\<rparr>"

definition ex_platform :: "http_response \<Rightarrow> platform" where
  "ex_platform token_answer =
     \<lparr>parseAuthRequest = (\<lambda>r. Some ex_mcp),
      lookupClient = (\<lambda>c. if c = ''c1'' then Some ex_client else None),
      completeAuthorization = (\<lambda>opts. Some ''https://client.example/cb?code=D''),
      new_URL = ex_new_URL,
      encode_cookie = (\<lambda>a. if a = ex_bundle then Some ''B'' else None),
      decode_cookie = (\<lambda>v. if v = ''B'' then Some ex_bundle else None),
      calculatePKCECodeChallenge = (\<lambda>v. ''S256:'' @ v),
      discovery = (\<lambda>i. if i = ''https://idp.example/'' then Some ex_as else None),
      validateAuthResponse =
        (\<lambda>as c u st.
           if url_get u ''state'' = Some st
           then (case url_get u ''code'' of None \<Rightarrow> None | Some code \<Rightarrow> Some [(''code'', code)])
           else None),
      authorizationCodeGrantRequest = (\<lambda>as c s ps r v. Some token_answer),
      refreshTokenGrantRequest = (\<lambda>as c s rt. Some token_answer),
      processRefreshTokenResponse =
        (\<lambda>as c r. case r of ErrorResponse e \<Rightarrow> None | TokenResponse b \<Rightarrow> Some ex_refreshed)\<rparr>"

text \<open>The provider answering the code grant with a token bound to the nonce \<open>N\<close>.\<close>

definition ex_idp :: platform where
  "ex_idp = ex_platform (TokenResponse (ex_token_body (Some ''N'')))"

text \<open>
  A request to the broker: its path, its query, the value of the cookie \<^verbatim>\<open>auth0_req_T\<close>
  (if it has one) and its form fields.
\<close>

definition ex_request ::
  "string \<Rightarrow> (string \<times> string) list \<Rightarrow> string option \<Rightarrow> (string \<times> string) list \<Rightarrow> request" where
  "ex_request p q cookie form =
     \<lparr>req_url = \<lparr>origin = ''https://broker.example'', pathname = p, searchParams = q\<rparr>,
      cookies = (\<lambda>n. if n = ''auth0_req_T'' then cookie else None),
      formData = map_of form\<rparr>"

definition ex_authorize :: request where
  "ex_authorize = ex_request ''/authorize'' [(''client_id'', ''c1'')] None []"

definition ex_consent :: "string \<Rightarrow> string option \<Rightarrow> request" where
  "ex_consent token action =
     ex_request ''/authorize/consent'' [] (Some ''B'')
       ([(''transaction_state'', ''T''), (''consent_token'', token)]
        @ (case action of None \<Rightarrow> [] | Some a \<Rightarrow> [(''consent_action'', a)]))"

definition ex_callback :: "string option \<Rightarrow> request" where
  "ex_callback cookie =
     ex_request ''/callback'' [(''state'', ''T''), (''code'', ''ABC'')] cookie []"

definition ex_grant :: CompleteAuthorizationOptions where
  "ex_grant =
     \<lparr>metadata_label = Some ''Ada'',
      ca_props =
        \<lparr>claims = ex_claims,
         tokenSet = \<lparr>accessToken = ''AT'', accessTokenTTL = Some 3600, idToken = Some ''J'',
                     refreshToken = Some ''RT''\<rparr>\<rparr>,
      ca_request = ex_mcp,
      ca_scope = [''openid'', ''profile''],
      userId = Some ''user1''\<rparr>"

definition ex_options :: "string \<Rightarrow> string option \<Rightarrow> unit TokenExchangeCallbackOptions" where
  "ex_options g rt =
     \<lparr>grantType = g,
      props =
        \<lparr>claims = ex_claims,
         tokenSet = \<lparr>accessToken = ''AT'', accessTokenTTL = Some 3600, idToken = Some ''J'',
                     refreshToken = rt\<rparr>\<rparr>\<rparr>"

section \<open>Properties\<close>

subsection \<open>Running a handler\<close>

lemma and_then_Inr [simp]: "and_then (es, Inr x) f = (es @ fst (f x), snd (f x))"
  by (cases "f x") (simp add: and_then_def)

lemma and_then_Inl [simp]: "and_then (es, Inl e) f = (es, Inl e)"
  by (simp add: and_then_def)

lemmas io_defs = ret_def throw_def emit_def orThrow_def effects_def outcome_def

lemmas run_defs =
  io_defs truthy_def js_or_def query_def getCookie_def callback_href_def issuer_of_def
  transaction_cookie_def getOidcConfig_def url_get_def sp_get_def url_set_def

lemma map_of_filter_other:
  "k' \<noteq> k \<Longrightarrow> map_of (filter (\<lambda>q. fst q \<noteq> k) ps) k' = map_of ps k'"
  by (induction ps) auto

lemma sp_get_sp_set: "sp_get (sp_set k v ps) k' = (if k' = k then Some v else sp_get ps k')"
  by (induction ps) (auto simp: sp_get_def map_of_filter_other)

lemma url_get_url_set [simp]:
  "url_get (url_set k v u) k' = (if k' = k then Some v else url_get u k')"
  by (simp add: url_get_def url_set_def sp_get_sp_set)

lemma origin_url_set [simp]: "origin (url_set k v u) = origin u"
  by (simp add: url_set_def)

lemma pathname_url_set [simp]: "pathname (url_set k v u) = pathname u"
  by (simp add: url_set_def)






text \<open>A refresh grant that returns has gone through every step of the refresh branch.\<close>

lemma refresh_success:
  assumes "grantType options = ''refresh_token''"
    and "tokenExchangeCallback p env options = (es, Inr res)"
  shows "\<exists>r prior as response fresh c.
      res = Some r
    \<and> truthy (refreshToken (tokenSet (props options))) = Some prior
    \<and> discovery p (issuer_of env) = Some as
    \<and> refreshTokenGrantRequest p as (AUTH0_CLIENT_ID env) (AUTH0_CLIENT_SECRET env) prior
        = Some response
    \<and> processRefreshTokenResponse p as (AUTH0_CLIENT_ID env) response = Some fresh
    \<and> getValidatedIdTokenClaims fresh = Some c
    \<and> r = \<lparr>result_accessTokenTTL = expires_in fresh,
            newProps = (props options)
              \<lparr>claims := c,
               tokenSet :=
                 \<lparr>accessToken = access_token fresh,
                  accessTokenTTL = expires_in fresh,
                  idToken = id_token fresh,
                  refreshToken = js_or (refresh_token fresh) (Some prior)\<rparr>\<rparr>\<rparr>"
  using assms
  by (auto simp add: tokenExchangeCallback_def getOidcConfig_def io_defs
      split: option.splits)

subsection \<open>The sample transaction\<close>

lemmas ex_defs =
  ex_env_def ex_mcp_def ex_client_def ex_rnd_def ex_bundle_def ex_client_url_def
  ex_issuer_url_def ex_authorize_url_def ex_new_URL_def ex_as_def ex_claims_def
  ex_id_token_def ex_token_body_def ex_refreshed_def ex_platform_def ex_idp_def
  ex_request_def ex_authorize_def ex_consent_def ex_callback_def ex_grant_def ex_options_def

lemma ex_consent_form:
  "truthy (formData (ex_consent k act) ''transaction_state'') = Some ''T''"
  "truthy (getCookie (ex_consent k act) (transaction_cookie ''T'')) = Some ''B''"
  "formData (ex_consent k act) ''consent_token'' = Some k"
  "formData (ex_consent k act) ''consent_action'' = act"
  by (simp_all add: ex_consent_def ex_request_def run_defs split: option.splits)

lemma ex_callback_query:
  "truthy (query (ex_callback c) ''state'') = Some ''T''"
  "truthy (getCookie (ex_callback None) (transaction_cookie ''T'')) = None"
  "truthy (getCookie (ex_callback (Some ''B'')) (transaction_cookie ''T'')) = Some ''B''"
  "truthy (getCookie (ex_callback (Some ''Z'')) (transaction_cookie ''T'')) = Some ''Z''"
  by (simp_all add: ex_callback_def ex_request_def run_defs)

lemma ex_platform_calls:
  "decode_cookie (ex_platform x) ''B'' = Some ex_bundle"
  "new_URL (ex_platform x) (redirectUri (mcpAuthRequest ex_bundle)) = Some ex_client_url"
  "new_URL (ex_platform x) (issuer_of ex_env) = Some ex_issuer_url"
  "discovery (ex_platform x) (issuer_of ex_env) = Some ex_as"
  "authorization_endpoint ex_as = Some ''https://idp.example/authorize''"
  "new_URL (ex_platform x) ''https://idp.example/authorize'' = Some ex_authorize_url"
  "validateAuthResponse (ex_platform x) ex_as (AUTH0_CLIENT_ID ex_env)
     (req_url (ex_callback c)) (transactionState ex_bundle) = Some [(''code'', ''ABC'')]"
  "authorizationCodeGrantRequest (ex_platform x) as' c' s' ps' r' v' = Some x"
  by (simp_all add: ex_platform_def ex_bundle_def ex_mcp_def ex_new_URL_def ex_env_def
      ex_as_def ex_callback_def ex_request_def issuer_of_def url_get_def sp_get_def)


subsection \<open>The callback and its transaction cookie\<close>

text \<open>
  Claim C1, as the code has it. A callback whose \<^verbatim>\<open>state\<close> is missing or empty, or whose
  request carries no non-empty cookie \<^verbatim>\<open>auth0_req_<state>\<close>, is answered with a 400
  plain-text error and has no effect at all. A cookie that does not decode makes the
  callback throw, again with no effect. A request whose cookie decodes is never answered
  with one of these 400 errors: the bundle of the cookie is the transaction, the handler
  keeps no record of the transaction ids it has consumed, and it goes on to the identity
  provider, to which it sends the code verifier of that bundle.
\<close>

theorem callback_without_live_cookie_fails:
  "(truthy (query req ''state'') = None \<longrightarrow>
      callback p env req = ([], Inr (Text ''Invalid state parameter'' 400)))
 \<and> (truthy (query req ''state'') = Some t
      \<and> truthy (getCookie req (transaction_cookie t)) = None \<longrightarrow>
      callback p env req =
        ([], Inr (Text ''Invalid transaction state or session expired'' 400)))
 \<and> (truthy (query req ''state'') = Some t
      \<and> truthy (getCookie req (transaction_cookie t)) = Some v
      \<and> decode_cookie p v = None \<longrightarrow>
      callback p env req = ([], Inl CookieCodecError))
 \<and> (truthy (query req ''state'') = Some t
      \<and> truthy (getCookie req (transaction_cookie t)) = Some v
      \<and> decode_cookie p v = Some a \<longrightarrow>
      outcome (callback p env req) \<noteq> Inr (Text ''Invalid state parameter'' 400)
      \<and> outcome (callback p env req)
          \<noteq> Inr (Text ''Invalid transaction state or session expired'' 400))
 \<and> (truthy (query req ''state'') = Some t
      \<and> truthy (getCookie req (transaction_cookie t)) = Some v
      \<and> decode_cookie p v = Some a
      \<and> new_URL p (issuer_of env) = Some iu
      \<and> discovery p (issuer_of env) = Some as
      \<and> validateAuthResponse p as (AUTH0_CLIENT_ID env) (req_url req) (transactionState a)
          = Some params \<longrightarrow>
      DiscoveryRequest (issuer_of env) \<in> set (effects (callback p env req))
      \<and> AuthorizationCodeGrantRequest params (callback_href req) (codeVerifier a)
          \<in> set (effects (callback p env req)))"
proof (intro conjI impI)
  assume "truthy (query req ''state'') = None"
  then show "callback p env req = ([], Inr (Text ''Invalid state parameter'' 400))"
    by (simp add: callback_def io_defs)
next
  assume "truthy (query req ''state'') = Some t
    \<and> truthy (getCookie req (transaction_cookie t)) = None"
  then show "callback p env req =
      ([], Inr (Text ''Invalid transaction state or session expired'' 400))"
    by (simp add: callback_def io_defs)
next
  assume "truthy (query req ''state'') = Some t
    \<and> truthy (getCookie req (transaction_cookie t)) = Some v \<and> decode_cookie p v = None"
  then show "callback p env req = ([], Inl CookieCodecError)"
    by (simp add: callback_def io_defs)
next
  assume h: "truthy (query req ''state'') = Some t
    \<and> truthy (getCookie req (transaction_cookie t)) = Some v \<and> decode_cookie p v = Some a"
  then show "outcome (callback p env req) \<noteq> Inr (Text ''Invalid state parameter'' 400)"
    by (auto simp add: callback_def getOidcConfig_def processAuthorizationCodeResponse_def
        io_defs Let_def split: option.splits sum.splits http_response.splits)
  from h show "outcome (callback p env req)
      \<noteq> Inr (Text ''Invalid transaction state or session expired'' 400)"
    by (auto simp add: callback_def getOidcConfig_def processAuthorizationCodeResponse_def
        io_defs Let_def split: option.splits sum.splits http_response.splits)
next
  assume h: "truthy (query req ''state'') = Some t
      \<and> truthy (getCookie req (transaction_cookie t)) = Some v
      \<and> decode_cookie p v = Some a
      \<and> new_URL p (issuer_of env) = Some iu
      \<and> discovery p (issuer_of env) = Some as
      \<and> validateAuthResponse p as (AUTH0_CLIENT_ID env) (req_url req) (transactionState a)
          = Some params"
  then show "DiscoveryRequest (issuer_of env) \<in> set (effects (callback p env req))"
    by (simp add: callback_def getOidcConfig_def io_defs)
  from h show "AuthorizationCodeGrantRequest params (callback_href req) (codeVerifier a)
      \<in> set (effects (callback p env req))"
    by (simp add: callback_def getOidcConfig_def io_defs)
qed

theorem callback_without_live_cookie_fails_witness:
  "callback ex_idp ex_env (ex_request ''/callback'' [(''code'', ''ABC'')] (Some ''B'') []) =
     ([], Inr (Text ''Invalid state parameter'' 400))
   \<and> callback ex_idp ex_env (ex_callback None) =
     ([], Inr (Text ''Invalid transaction state or session expired'' 400))
   \<and> callback ex_idp ex_env (ex_callback (Some ''Z'')) = ([], Inl CookieCodecError)
   \<and> outcome (callback ex_idp ex_env (ex_callback (Some ''B'')))
       \<noteq> Inr (Text ''Invalid state parameter'' 400)
   \<and> outcome (callback ex_idp ex_env (ex_callback (Some ''B'')))
       \<noteq> Inr (Text ''Invalid transaction state or session expired'' 400)
   \<and> DiscoveryRequest (issuer_of ex_env)
       \<in> set (effects (callback ex_idp ex_env (ex_callback (Some ''B''))))
   \<and> AuthorizationCodeGrantRequest [(''code'', ''ABC'')]
         (callback_href (ex_callback (Some ''B''))) (codeVerifier ex_bundle)
       \<in> set (effects (callback ex_idp ex_env (ex_callback (Some ''B''))))"
proof -
  have no_state:
    "truthy (query (ex_request ''/callback'' [(''code'', ''ABC'')] (Some ''B'') []) ''state'') = None"
    by (simp add: ex_request_def run_defs)
  note no_cookie = ex_callback_query(2) and cookie = ex_callback_query(3)
    and garbled = ex_callback_query(4)
  have dec: "decode_cookie ex_idp ''B'' = Some ex_bundle"
    and idp: "new_URL ex_idp (issuer_of ex_env) = Some ex_issuer_url"
      "discovery ex_idp (issuer_of ex_env) = Some ex_as"
      "validateAuthResponse ex_idp ex_as (AUTH0_CLIENT_ID ex_env)
         (req_url (ex_callback (Some ''B''))) (transactionState ex_bundle)
         = Some [(''code'', ''ABC'')]"
    by (simp_all add: ex_idp_def ex_platform_calls)
  have undecodable: "decode_cookie ex_idp ''Z'' = None"
    by (simp add: ex_idp_def ex_platform_def)
  have c1: "callback ex_idp ex_env
        (ex_request ''/callback'' [(''code'', ''ABC'')] (Some ''B'') []) =
      ([], Inr (Text ''Invalid state parameter'' 400))"
    using
      callback_without_live_cookie_fails
        [where req = "ex_request ''/callback'' [(''code'', ''ABC'')] (Some ''B'') []"
          and p = ex_idp and env = ex_env and t = "''T''" and v = "''B''" and a = ex_bundle
          and iu = ex_issuer_url and as = ex_as and params = "[(''code'', ''ABC'')]"]
      no_state
    by blast
  have c2: "callback ex_idp ex_env (ex_callback None) =
      ([], Inr (Text ''Invalid transaction state or session expired'' 400))"
    using
      callback_without_live_cookie_fails
        [where req = "ex_callback None" and p = ex_idp and env = ex_env and t = "''T''"
          and v = "''B''" and a = ex_bundle
          and iu = ex_issuer_url and as = ex_as and params = "[(''code'', ''ABC'')]"]
      no_cookie ex_callback_query(1) [of None]
    by blast
  have c3: "callback ex_idp ex_env (ex_callback (Some ''Z'')) = ([], Inl CookieCodecError)"
    using
      callback_without_live_cookie_fails
        [where req = "ex_callback (Some ''Z'')" and p = ex_idp and env = ex_env
          and t = "''T''" and v = "''Z''" and a = ex_bundle
          and iu = ex_issuer_url and as = ex_as and params = "[(''code'', ''ABC'')]"]
      garbled undecodable ex_callback_query(1) [of "Some ''Z''"]
    by blast
  note live =
    callback_without_live_cookie_fails
      [where req = "ex_callback (Some ''B'')" and p = ex_idp and env = ex_env
        and t = "''T''" and v = "''B''" and a = ex_bundle and iu = ex_issuer_url
        and as = ex_as and params = "[(''code'', ''ABC'')]"]
  note q = ex_callback_query(1) [of "Some ''B''"]
  have c4: "outcome (callback ex_idp ex_env (ex_callback (Some ''B'')))
       \<noteq> Inr (Text ''Invalid state parameter'' 400)"
    "outcome (callback ex_idp ex_env (ex_callback (Some ''B'')))
       \<noteq> Inr (Text ''Invalid transaction state or session expired'' 400)"
    using live q cookie dec by blast+
  have c5: "DiscoveryRequest (issuer_of ex_env)
       \<in> set (effects (callback ex_idp ex_env (ex_callback (Some ''B''))))"
    "AuthorizationCodeGrantRequest [(''code'', ''ABC'')]
         (callback_href (ex_callback (Some ''B''))) (codeVerifier ex_bundle)
       \<in> set (effects (callback ex_idp ex_env (ex_callback (Some ''B''))))"
    using live q cookie dec idp by blast+
  from c1 c2 c3 c4 c5 show ?thesis
    by (intro conjI)
qed

text \<open>
  The claim as the spec words it fails: the second delivery of a callback with identical
  parameters, cookie included, finds the bundle again. If the provider accepts the code
  once more, the grant is completed once more and the user agent is redirected to the
  downstream client (by a response that carries no \<^verbatim>\<open>Set-Cookie\<close>); if the provider
  refuses the code, the callback throws once it has sent the code grant. In neither case
  is the request answered with the 400 error of an unknown transaction.
\<close>

theorem callback_replay_counterexample:
  "outcome (callback (ex_platform (TokenResponse (ex_token_body (Some ''N'')))) ex_env
       (ex_callback (Some ''B''))) =
     Inr (ResponseRedirect \<lparr>origin = ''https://client.example'', pathname = ''/cb'',
                              searchParams = [(''code'', ''D'')]\<rparr>)
   \<and> CompleteAuthorization ex_grant
       \<in> set (effects (callback (ex_platform (TokenResponse (ex_token_body (Some ''N''))))
                  ex_env (ex_callback (Some ''B''))))
   \<and> response_set_cookies (callback (ex_platform (TokenResponse (ex_token_body (Some ''N''))))
       ex_env (ex_callback (Some ''B''))) = Some []
   \<and> outcome (callback (ex_platform (ErrorResponse ''invalid_grant'')) ex_env
       (ex_callback (Some ''B''))) = Inl TokenExchangeError
   \<and> AuthorizationCodeGrantRequest [(''code'', ''ABC'')] ''https://broker.example/callback'' ''V''
       \<in> set (effects (callback (ex_platform (ErrorResponse ''invalid_grant'')) ex_env
                  (ex_callback (Some ''B''))))"
  by (simp add: callback_def processAuthorizationCodeResponse_def validateIdToken_def
      getValidatedIdTokenClaims_def completion_options_def response_set_cookies_def
      ex_defs run_defs)

subsection \<open>The consent token\<close>

text \<open>
  Claim C2. A consent submission for a transaction whose cookie decodes, with a consent
  token other than the stored one (or with none), is answered with 403
  \<^verbatim>\<open>Invalid consent token\<close> and has no effect: nothing is asked of the identity provider and
  no redirect is produced. The action does not occur among the hypotheses.
\<close>

theorem consent_token_mismatch_rejected:
  assumes "truthy (formData req ''transaction_state'') = Some t"
    and "truthy (getCookie req (transaction_cookie t)) = Some v"
    and "decode_cookie p v = Some a"
    and "formData req ''consent_token'' \<noteq> Some (consentToken a)"
  shows "confirmConsent p env req = ([], Inr (Text ''Invalid consent token'' 403))"
  using assms by (auto simp add: confirmConsent_def io_defs)

theorem consent_token_mismatch_rejected_witness:
  "formData (ex_consent ''X'' (Some ''approve'')) ''consent_token'' \<noteq> Some (consentToken ex_bundle)
   \<and> confirmConsent ex_idp ex_env (ex_consent ''X'' (Some ''approve'')) =
       ([], Inr (Text ''Invalid consent token'' 403))
   \<and> confirmConsent ex_idp ex_env (ex_consent ''X'' (Some ''deny'')) =
       ([], Inr (Text ''Invalid consent token'' 403))"
proof -
  have dec: "decode_cookie ex_idp ''B'' = Some ex_bundle"
    by (simp add: ex_idp_def ex_platform_calls)
  note approve = ex_consent_form [of "''X''" "Some ''approve''"]
  note deny = ex_consent_form [of "''X''" "Some ''deny''"]
  have differs:
    "formData (ex_consent ''X'' (Some ''approve'')) ''consent_token'' \<noteq> Some (consentToken ex_bundle)"
    "formData (ex_consent ''X'' (Some ''deny'')) ''consent_token'' \<noteq> Some (consentToken ex_bundle)"
    by (simp_all add: ex_consent_form ex_bundle_def)
  show ?thesis
    using
      consent_token_mismatch_rejected [OF approve(1) approve(2) dec differs(1),
        where env = ex_env]
      consent_token_mismatch_rejected [OF deny(1) deny(2) dec differs(2), where env = ex_env]
      differs
    by simp
qed

subsection \<open>The nonce of the ID token\<close>

text \<open>
  Claim C3. The callback validates the token endpoint's answer against the nonce of the
  bundle in the transaction cookie. When the ID token of the answer carries another nonce,
  or none, the callback throws \<open>InvalidIdToken\<close> once the code grant has been requested:
  the downstream grant is not completed and no redirect is returned. The outcome of the
  signature, issuer and audience checks does not occur among the hypotheses.
\<close>

theorem callback_nonce_mismatch_rejected:
  assumes "truthy (query req ''state'') = Some t"
    and "truthy (getCookie req (transaction_cookie t)) = Some v"
    and "decode_cookie p v = Some a"
    and "new_URL p (issuer_of env) = Some iu"
    and "discovery p (issuer_of env) = Some as"
    and "validateAuthResponse p as (AUTH0_CLIENT_ID env) (req_url req) (transactionState a)
          = Some params"
    and "authorizationCodeGrantRequest p as (AUTH0_CLIENT_ID env) (AUTH0_CLIENT_SECRET env)
          params (callback_href req) (codeVerifier a) = Some (TokenResponse body)"
    and "body_id_token body = Some tok"
    and "nonce_claim (payload tok) \<noteq> Some (nonce a)"
  shows "callback p env req =
          ([SetCookie (transaction_cookie t) [] clear_cookie_options,
            DiscoveryRequest (issuer_of env),
            AuthorizationCodeGrantRequest params (callback_href req) (codeVerifier a)],
           Inl InvalidIdToken)"
  using assms
  by (simp add: callback_def getOidcConfig_def processAuthorizationCodeResponse_def
      validateIdToken_def io_defs)

theorem callback_nonce_mismatch_rejected_witness:
  "signature_ok (ex_id_token (Some ''M'')) \<and> issuer_ok (ex_id_token (Some ''M''))
   \<and> audience_ok (ex_id_token (Some ''M''))
   \<and> nonce_claim (payload (ex_id_token (Some ''M''))) \<noteq> Some (nonce ex_bundle)
   \<and> callback (ex_platform (TokenResponse (ex_token_body (Some ''M'')))) ex_env
       (ex_callback (Some ''B'')) =
       ([SetCookie (transaction_cookie ''T'') [] clear_cookie_options,
         DiscoveryRequest (issuer_of ex_env),
         AuthorizationCodeGrantRequest [(''code'', ''ABC'')]
           (callback_href (ex_callback (Some ''B''))) (codeVerifier ex_bundle)],
        Inl InvalidIdToken)"
proof -
  note cookie = ex_callback_query(3)
  have tok: "body_id_token (ex_token_body (Some ''M'')) = Some (ex_id_token (Some ''M''))"
    by (simp add: ex_token_body_def)
  have differs: "nonce_claim (payload (ex_id_token (Some ''M''))) \<noteq> Some (nonce ex_bundle)"
    by (simp add: ex_id_token_def ex_bundle_def)
  have checks: "signature_ok (ex_id_token (Some ''M''))" "issuer_ok (ex_id_token (Some ''M''))"
    "audience_ok (ex_id_token (Some ''M''))"
    by (simp_all add: ex_id_token_def)
  show ?thesis
    using
      callback_nonce_mismatch_rejected [OF ex_callback_query(1) cookie ex_platform_calls(1)
        ex_platform_calls(3) ex_platform_calls(4) ex_platform_calls(7) ex_platform_calls(8)
        tok differs]
      differs checks
    by simp
qed


subsection \<open>Denial\<close>



subsection \<open>The token-exchange callback\<close>

text \<open>
  Claim C5. On the grant type \<open>authorization_code\<close> the token-exchange callback returns,
  with no effect, the access-token lifetime stored in the token set of the property bag,
  and the property bag as it is.
\<close>

theorem token_exchange_authorization_code_ttl:
  assumes "grantType options = ''authorization_code''"
  shows "\<exists>r. tokenExchangeCallback p env options = ([], Inr (Some r))
           \<and> result_accessTokenTTL r = accessTokenTTL (tokenSet (props options))
           \<and> newProps r = props options"
  using assms by (simp add: tokenExchangeCallback_def io_defs)

theorem token_exchange_authorization_code_ttl_witness:
  "accessTokenTTL (tokenSet (props (ex_options ''authorization_code'' (Some ''RT'')))) = Some 3600
   \<and> (\<exists>r. tokenExchangeCallback ex_idp ex_env (ex_options ''authorization_code'' (Some ''RT'')) =
           ([], Inr (Some r))
         \<and> result_accessTokenTTL r = Some 3600)"
proof -
  have g: "grantType (ex_options ''authorization_code'' (Some ''RT'')) = ''authorization_code''"
    and ttl:
      "accessTokenTTL (tokenSet (props (ex_options ''authorization_code'' (Some ''RT'')))) = Some 3600"
    by (simp_all add: ex_options_def)
  show ?thesis
    using token_exchange_authorization_code_ttl [OF g, where p = ex_idp and env = ex_env] ttl
    by auto
qed

text \<open>
  Claim C6. On the grant type \<open>refresh_token\<close>, when the token set of the property bag
  holds no refresh token (none, or the empty string), the token-exchange callback throws
  \<^verbatim>\<open>Error("No Auth0 refresh token found")\<close> and has no effect: neither the discovery
  request nor the refresh grant is sent.
\<close>

theorem token_exchange_refresh_without_token_throws:
  assumes "grantType options = ''refresh_token''"
    and "truthy (refreshToken (tokenSet (props options))) = None"
  shows "tokenExchangeCallback p env options = ([], Inl (Error ''No Auth0 refresh token found''))"
  using assms by (simp add: tokenExchangeCallback_def io_defs)

theorem token_exchange_refresh_without_token_throws_witness:
  "tokenExchangeCallback ex_idp ex_env (ex_options ''refresh_token'' None) =
     ([], Inl (Error ''No Auth0 refresh token found''))
   \<and> tokenExchangeCallback ex_idp ex_env (ex_options ''refresh_token'' (Some [])) =
     ([], Inl (Error ''No Auth0 refresh token found''))"
proof -
  have g: "\<And>rt. grantType (ex_options ''refresh_token'' rt) = ''refresh_token''"
    by (simp add: ex_options_def)
  have none: "truthy (refreshToken (tokenSet (props (ex_options ''refresh_token'' None)))) = None"
    and empty:
      "truthy (refreshToken (tokenSet (props (ex_options ''refresh_token'' (Some []))))) = None"
    by (simp_all add: ex_options_def truthy_def)
  show ?thesis
    using
      token_exchange_refresh_without_token_throws [OF g none, where p = ex_idp and env = ex_env]
      token_exchange_refresh_without_token_throws [OF g empty, where p = ex_idp and env = ex_env]
    by simp
qed

text \<open>
  Claim C7. When the token-exchange callback returns on the grant type \<open>refresh_token\<close>,
  the provider was discovered, the refresh grant was made with the stored refresh token
  and its processed answer \<open>fresh\<close> carries validated claims; the returned property bag
  has these claims and a token set whose access token, lifetime and ID token are those of
  \<open>fresh\<close> and whose refresh token is that of \<open>fresh\<close> if it has one, and the stored one
  otherwise. The rest of the property bag is kept.
\<close>

theorem token_exchange_refresh_replaces_props:
  assumes "grantType options = ''refresh_token''"
    and "tokenExchangeCallback p env options = (es, Inr res)"
  shows "\<exists>r prior as response fresh c.
      res = Some r
    \<and> truthy (refreshToken (tokenSet (props options))) = Some prior
    \<and> discovery p (issuer_of env) = Some as
    \<and> refreshTokenGrantRequest p as (AUTH0_CLIENT_ID env) (AUTH0_CLIENT_SECRET env) prior
        = Some response
    \<and> processRefreshTokenResponse p as (AUTH0_CLIENT_ID env) response = Some fresh
    \<and> getValidatedIdTokenClaims fresh = Some c
    \<and> result_accessTokenTTL r = expires_in fresh
    \<and> claims (newProps r) = c
    \<and> tokenSet (newProps r) =
        \<lparr>accessToken = access_token fresh,
         accessTokenTTL = expires_in fresh,
         idToken = id_token fresh,
         refreshToken =
           (case truthy (refresh_token fresh) of Some n \<Rightarrow> Some n | None \<Rightarrow> Some prior)\<rparr>
    \<and> UserProps.more (newProps r) = UserProps.more (props options)"
proof -
  from refresh_success [OF assms] obtain r prior as response fresh c where
    h: "res = Some r"
      "truthy (refreshToken (tokenSet (props options))) = Some prior"
      "discovery p (issuer_of env) = Some as"
      "refreshTokenGrantRequest p as (AUTH0_CLIENT_ID env) (AUTH0_CLIENT_SECRET env) prior
        = Some response"
      "processRefreshTokenResponse p as (AUTH0_CLIENT_ID env) response = Some fresh"
      "getValidatedIdTokenClaims fresh = Some c"
    and r: "r = \<lparr>result_accessTokenTTL = expires_in fresh,
            newProps = (props options)
              \<lparr>claims := c,
               tokenSet :=
                 \<lparr>accessToken = access_token fresh,
                  accessTokenTTL = expires_in fresh,
                  idToken = id_token fresh,
                  refreshToken = js_or (refresh_token fresh) (Some prior)\<rparr>\<rparr>\<rparr>"
    by blast
  have "result_accessTokenTTL r = expires_in fresh" "claims (newProps r) = c"
    "tokenSet (newProps r) =
        \<lparr>accessToken = access_token fresh,
         accessTokenTTL = expires_in fresh,
         idToken = id_token fresh,
         refreshToken =
           (case truthy (refresh_token fresh) of Some n \<Rightarrow> Some n | None \<Rightarrow> Some prior)\<rparr>"
    "UserProps.more (newProps r) = UserProps.more (props options)"
    by (simp_all add: r js_or_def)
  with h show ?thesis by blast
qed

theorem token_exchange_refresh_replaces_props_witness:
  "\<exists>r. tokenExchangeCallback ex_idp ex_env (ex_options ''refresh_token'' (Some ''RT'')) =
         ([DiscoveryRequest ''https://idp.example/'', RefreshTokenGrantRequest ''RT''],
          Inr (Some r))
     \<and> result_accessTokenTTL r = Some 7200
     \<and> claims (newProps r) = ex_claims\<lparr>nonce_claim := None\<rparr>
     \<and> tokenSet (newProps r) =
         \<lparr>accessToken = ''AT2'', accessTokenTTL = Some 7200, idToken = Some ''J2'',
          refreshToken = Some ''RT''\<rparr>"
proof -
  have g: "grantType (ex_options ''refresh_token'' (Some ''RT'')) = ''refresh_token''"
    by (simp add: ex_options_def)
  have run: "tokenExchangeCallback ex_idp ex_env (ex_options ''refresh_token'' (Some ''RT'')) =
      ([DiscoveryRequest ''https://idp.example/'', RefreshTokenGrantRequest ''RT''],
       Inr (Some
         \<lparr>result_accessTokenTTL = Some 7200,
          newProps =
            \<lparr>claims = ex_claims\<lparr>nonce_claim := None\<rparr>,
             tokenSet =
               \<lparr>accessToken = ''AT2'', accessTokenTTL = Some 7200, idToken = Some ''J2'',
                refreshToken = Some ''RT''\<rparr>\<rparr>\<rparr>))"
    by (simp add: tokenExchangeCallback_def getValidatedIdTokenClaims_def ex_defs run_defs)
  show ?thesis
    using token_exchange_refresh_replaces_props [OF g run] run
    by simp
qed


subsection \<open>Approval\<close>



subsection \<open>Requests that \<open>authorize\<close> refuses\<close>

text \<open>
  Claim C9. When the parsed authorization request has no client id, or a client id that
  the client registry does not know, \<open>authorize\<close> answers with a 400 plain-text error
  (\<^verbatim>\<open>Invalid request\<close>, \<^verbatim>\<open>Invalid client\<close>) and has no effect: no cookie is set, so no
  bundle is persisted.
\<close>

theorem authorize_rejects_missing_or_unknown_client:
  assumes "parseAuthRequest p req = Some ar"
    and "clientId ar = [] \<or> lookupClient p (clientId ar) = None"
  shows "authorize p env rnd req =
           ([], Inr (Text (if clientId ar = [] then ''Invalid request'' else ''Invalid client'') 400))"
  using assms by (auto simp add: authorize_def io_defs)

theorem authorize_rejects_missing_or_unknown_client_witness:
  "authorize (ex_idp\<lparr>parseAuthRequest := \<lambda>r. Some (ex_mcp\<lparr>clientId := []\<rparr>)\<rparr>) ex_env ex_rnd
     ex_authorize = ([], Inr (Text ''Invalid request'' 400))
   \<and> authorize (ex_idp\<lparr>parseAuthRequest := \<lambda>r. Some (ex_mcp\<lparr>clientId := ''c9''\<rparr>)\<rparr>) ex_env
     ex_rnd ex_authorize = ([], Inr (Text ''Invalid client'' 400))"
proof -
  have missing:
    "parseAuthRequest (ex_idp\<lparr>parseAuthRequest := \<lambda>r. Some (ex_mcp\<lparr>clientId := []\<rparr>)\<rparr>)
       ex_authorize = Some (ex_mcp\<lparr>clientId := []\<rparr>)"
    "clientId (ex_mcp\<lparr>clientId := []\<rparr>) = []
      \<or> lookupClient (ex_idp\<lparr>parseAuthRequest := \<lambda>r. Some (ex_mcp\<lparr>clientId := []\<rparr>)\<rparr>)
          (clientId (ex_mcp\<lparr>clientId := []\<rparr>)) = None"
    by simp_all
  have unknown:
    "parseAuthRequest (ex_idp\<lparr>parseAuthRequest := \<lambda>r. Some (ex_mcp\<lparr>clientId := ''c9''\<rparr>)\<rparr>)
       ex_authorize = Some (ex_mcp\<lparr>clientId := ''c9''\<rparr>)"
    "clientId (ex_mcp\<lparr>clientId := ''c9''\<rparr>) = []
      \<or> lookupClient (ex_idp\<lparr>parseAuthRequest := \<lambda>r. Some (ex_mcp\<lparr>clientId := ''c9''\<rparr>)\<rparr>)
          (clientId (ex_mcp\<lparr>clientId := ''c9''\<rparr>)) = None"
    by (simp_all add: ex_idp_def ex_platform_def)
  show ?thesis
    using
      authorize_rejects_missing_or_unknown_client [OF missing, where env = ex_env and rnd = ex_rnd]
      authorize_rejects_missing_or_unknown_client [OF unknown, where env = ex_env and rnd = ex_rnd]
    by simp
qed

subsection \<open>Only \<open>approve\<close> approves\<close>




end
